theory Spec2Isabelle
  imports Main "HOL-Library.Word"
begin

section \<open>Vertex attribute bindings derived by reflection (raylib/rlgl\_utils.go)\<close>

text \<open>
  \<^verbatim>\<open>SetVertexAttributes\<close> inspects the static type of a slice of vertices through
  package \<^verbatim>\<open>reflect\<close> and issues, for every entry of a list of
  \<^verbatim>\<open>VertexAttributesConfig\<close>, a call of \<^verbatim>\<open>SetVertexAttribute\<close> followed by a call of
  \<^verbatim>\<open>EnableVertexAttribute\<close>. The embedding below keeps the shape of the Go function:
  the type information that \<^verbatim>\<open>reflect\<close> hands out is data, the calls into OpenGL are
  collected in the order in which they are issued, and every \<^verbatim>\<open>panic\<close> is a value.
\<close>

subsection \<open>Machine integers\<close>

type_synonym int32 = "32 word"
type_synonym uint32 = "32 word"

text \<open>
  The Go conversion \<^verbatim>\<open>int32(x)\<close> of a non-negative \<^verbatim>\<open>int\<close> or \<^verbatim>\<open>uintptr\<close>: the low
  32 bits of \<open>x\<close>, whatever the width of the platform's \<^verbatim>\<open>int\<close>. The value is read back
  as a signed number with \<open>sint\<close>.
\<close>

definition int32 :: "nat \<Rightarrow> int32" where
  "int32 x = word_of_nat x"

subsection \<open>What package reflect reports about a type\<close>

text \<open>The 27 values of \<^verbatim>\<open>reflect.Kind\<close>, in the order of their declaration.\<close>

datatype reflect_Kind =
    reflect_Invalid | reflect_Bool
  | reflect_Int | reflect_Int8 | reflect_Int16 | reflect_Int32 | reflect_Int64
  | reflect_Uint | reflect_Uint8 | reflect_Uint16 | reflect_Uint32 | reflect_Uint64
  | reflect_Uintptr
  | reflect_Float32 | reflect_Float64 | reflect_Complex64 | reflect_Complex128
  | reflect_Array | reflect_Chan | reflect_Func | reflect_Interface | reflect_Map
  | reflect_Pointer | reflect_Slice | reflect_String | reflect_Struct
  | reflect_UnsafePointer

text \<open>
  A \<^verbatim>\<open>reflect.Type\<close>. The first argument of every constructor is the name under which
  the type is known (\<^verbatim>\<open>float32\<close>, \<^verbatim>\<open>rl.Vector3\<close>, \<^verbatim>\<open>[4]uint8\<close>, ...): two Go types are
  identical exactly when their descriptors are equal, which is what the comparison
  \<^verbatim>\<open>prevType != field.Type.Field(i).Type\<close> of the source tests.
  \<^item> \<open>BasicType name kind size\<close> is a type of any kind other than array and struct,
    with the size in bytes that the compiler gave it;
  \<^item> \<open>ArrayType name elem len\<close> is \<^verbatim>\<open>[len]elem\<close>;
  \<^item> \<open>StructType name fields size\<close> is a struct with its fields in declaration order.
  A \<^verbatim>\<open>reflect.StructField\<close> carries the field's name, its type and its offset in bytes
  within the struct, as the compiler laid it out. Only the fields declared in the struct
  itself are looked up by name; fields promoted from embedded structs are not part of
  this model.
\<close>

datatype reflect_Type =
    BasicType string reflect_Kind nat
  | ArrayType string reflect_Type nat
  | StructType string "StructField list" nat
and StructField =
    StructField (Name: string) (Type: reflect_Type) (Offset: nat)

fun Kind :: "reflect_Type \<Rightarrow> reflect_Kind" where
  "Kind (BasicType name k sz) = k"
| "Kind (ArrayType name elem len) = reflect_Array"
| "Kind (StructType name flds sz) = reflect_Struct"

text \<open>\<^verbatim>\<open>t.Size()\<close>, which is also \<^verbatim>\<open>unsafe.Sizeof\<close> of a value of the type.\<close>

fun Size :: "reflect_Type \<Rightarrow> nat" where
  "Size (BasicType name k sz) = sz"
| "Size (ArrayType name elem len) = len * Size elem"
| "Size (StructType name flds sz) = sz"

text \<open>\<^verbatim>\<open>t.FieldByName(name)\<close> on the fields of a struct: the first field of that name.\<close>

definition FieldByName :: "StructField list \<Rightarrow> string \<Rightarrow> StructField option" where
  "FieldByName flds name = find (\<lambda>f. Name f = name) flds"

subsection \<open>The OpenGL side\<close>

text \<open>
  The constants \<^verbatim>\<open>Byte\<close>, \<^verbatim>\<open>UnsignedByte\<close>, \<^verbatim>\<open>Short\<close>, \<^verbatim>\<open>UnsignedShort\<close>, \<^verbatim>\<open>Int\<close>,
  \<^verbatim>\<open>UnsignedInt\<close>, \<^verbatim>\<open>Float\<close> and \<^verbatim>\<open>Double\<close> of package \<^verbatim>\<open>rl\<close> are declared in a file
  that is not at hand. They are a parameter of the model: every theorem below holds
  for any values of them.
\<close>

record gl_constants =
  rl_Byte :: int32
  rl_UnsignedByte :: int32
  rl_Short :: int32
  rl_UnsignedShort :: int32
  rl_Int :: int32
  rl_UnsignedInt :: int32
  rl_Float :: int32
  rl_Double :: int32

text \<open>
  The values of the OpenGL enumerants of these names, for the concrete examples.
\<close>

definition opengl :: gl_constants where
  "opengl = \<lparr> rl_Byte = 0x1400, rl_UnsignedByte = 0x1401, rl_Short = 0x1402,
     rl_UnsignedShort = 0x1403, rl_Int = 0x1404, rl_UnsignedInt = 0x1405,
     rl_Float = 0x1406, rl_Double = 0x140A \<rparr>"

text \<open>
  The two functions of the OpenGL binding that \<^verbatim>\<open>SetVertexAttributes\<close> calls. A run is
  observed through the list of these calls, in the order in which they were issued:
  \<open>SetVertexAttribute index compSize type normalized stride offset\<close> and
  \<open>EnableVertexAttribute index\<close>.
\<close>

datatype gl_call =
    SetVertexAttribute uint32 int32 int32 bool int32 int32
  | EnableVertexAttribute uint32

subsection \<open>The binding requests and the outcome of a call\<close>

text \<open>
  \<^verbatim>\<open>VertexAttributesConfig\<close>; its field \<^verbatim>\<open>Field\<close> is \<open>Field_cfg\<close> here, \<open>Field\<close> being
  the field of a relation in HOL.
\<close>

record VertexAttributesConfig =
  Field_cfg :: string
  Attribute :: uint32
  Normalized :: bool

text \<open>
  The panics of \<^verbatim>\<open>SetVertexAttributes\<close>, named after what they report, with their
  messages:
  \<^item> \<open>UnsupportedRecordShape\<close>: "Vertex array is using unsupported types. Only structs
    and and arrays are supported.";
  \<^item> \<open>UnsupportedPrimitiveType\<close>: "Backing type for array is not one of the supported
    primitives" (a slice of arrays) and "Only array of primitive types is supported"
    (an array field of a struct);
  \<^item> \<open>UnknownField\<close>: "struct ... does not have a field of the name ...";
  \<^item> \<open>EmptyAggregate\<close>: "Child struct ... is empty in field ...";
  \<^item> \<open>HeterogeneousAggregate NotPrimitive\<close>: "child struct must have a primitive type
    for every field in ...";
  \<^item> \<open>HeterogeneousAggregate NotSameType\<close>: "child struct must have the same type for
    every field in ...".
\<close>

datatype child_fault = NotPrimitive | NotSameType

datatype panic =
    UnsupportedRecordShape
  | UnsupportedPrimitiveType
  | UnknownField
  | EmptyAggregate
  | HeterogeneousAggregate child_fault

datatype outcome = Returned | Panicked panic

subsection \<open>glType\<close>

fun glType :: "gl_constants \<Rightarrow> reflect_Kind \<Rightarrow> int32 \<times> bool" where
  "glType gl reflect_Int8 = (rl_Byte gl, True)"
| "glType gl reflect_Uint8 = (rl_UnsignedByte gl, True)"
| "glType gl reflect_Int16 = (rl_Short gl, True)"
| "glType gl reflect_Uint16 = (rl_UnsignedShort gl, True)"
| "glType gl reflect_Int32 = (rl_Int gl, True)"
| "glType gl reflect_Uint32 = (rl_UnsignedInt gl, True)"
| "glType gl reflect_Float32 = (rl_Float gl, True)"
| "glType gl reflect_Float64 = (rl_Double gl, True)"
| "glType gl _ = (- 1, False)"

subsection \<open>SetVertexAttributes\<close>

text \<open>
  The loop over the bindings of a slice of arrays (lines 56 to 61): \<open>i\<close> is the index
  of the first binding of the list.
\<close>

fun array_attributes ::
  "int32 \<Rightarrow> int32 \<Rightarrow> int32 \<Rightarrow> nat \<Rightarrow> nat \<Rightarrow> VertexAttributesConfig list \<Rightarrow> gl_call list" where
  "array_attributes components attrType stride attributeSize i [] = []"
| "array_attributes components attrType stride attributeSize i (attr # attributes) =
     (let offset = int32 i * int32 attributeSize in
      SetVertexAttribute (Attribute attr) components attrType (Normalized attr) stride offset
      # EnableVertexAttribute (Attribute attr)
      # array_attributes components attrType stride attributeSize (Suc i) attributes)"

text \<open>
  The loop that compares the types of the fields of a child struct with the type of its
  first field (lines 118 to 122), from index \<open>i\<close> on.
\<close>

function child_same_type :: "reflect_Type \<Rightarrow> StructField list \<Rightarrow> nat \<Rightarrow> panic option" where
  "child_same_type prevType flds i =
     (if i < length flds then
        (if prevType \<noteq> Type (flds ! i) then Some (HeterogeneousAggregate NotSameType)
         else child_same_type prevType flds (Suc i))
      else None)"
  by pat_completeness auto
termination
  by (relation "measure (\<lambda>(prevType, flds, i). length flds - i)") auto

declare child_same_type.simps [simp del]

text \<open>
  The body of the loop over the bindings of a slice of structs (lines 69 to 127) for one
  binding: the OpenGL calls it issues, and the panic that ends it, if any. A field whose
  kind \<open>glType\<close> does not know and which is neither an array nor a struct matches no
  case of the inner \<^verbatim>\<open>switch\<close>, which has no default: the body ends without a call.
\<close>

definition struct_attribute ::
  "gl_constants \<Rightarrow> StructField list \<Rightarrow> int32 \<Rightarrow> VertexAttributesConfig
     \<Rightarrow> gl_call list \<times> panic option" where
  "struct_attribute gl flds stride attr =
     (case FieldByName flds (Field_cfg attr) of
        None \<Rightarrow> ([], Some UnknownField)
      | Some field \<Rightarrow>
          (case glType gl (Kind (Type field)) of
             (attrType, True) \<Rightarrow>
               ([SetVertexAttribute (Attribute attr) 1 attrType (Normalized attr) stride
                   (int32 (Offset field)),
                 EnableVertexAttribute (Attribute attr)], None)
           | (_, False) \<Rightarrow>
               (case Type field of
                  ArrayType name elem len \<Rightarrow>
                    (case glType gl (Kind elem) of
                       (attrType, False) \<Rightarrow> ([], Some UnsupportedPrimitiveType)
                     | (attrType, True) \<Rightarrow>
                         ([SetVertexAttribute (Attribute attr) (int32 len) attrType
                             (Normalized attr) stride (int32 (Offset field)),
                           EnableVertexAttribute (Attribute attr)], None))
                | StructType name cfields sz \<Rightarrow>
                    (let components = int32 (length cfields) in
                     if components = 0 then ([], Some EmptyAggregate)
                     else
                       (let prevType = Type (cfields ! 0) in
                        case glType gl (Kind prevType) of
                          (attrType, False) \<Rightarrow>
                            ([], Some (HeterogeneousAggregate NotPrimitive))
                        | (attrType, True) \<Rightarrow>
                            (case child_same_type prevType cfields 1 of
                               Some p \<Rightarrow> ([], Some p)
                             | None \<Rightarrow>
                                 ([SetVertexAttribute (Attribute attr) components attrType
                                     (Normalized attr) stride (int32 (Offset field)),
                                   EnableVertexAttribute (Attribute attr)], None))))
                | BasicType name k sz \<Rightarrow> ([], None))))"

text \<open>The loop over the bindings of a slice of structs (line 68).\<close>

fun struct_attributes ::
  "gl_constants \<Rightarrow> StructField list \<Rightarrow> int32 \<Rightarrow> VertexAttributesConfig list
     \<Rightarrow> gl_call list \<times> outcome" where
  "struct_attributes gl flds stride [] = ([], Returned)"
| "struct_attributes gl flds stride (attr # attributes) =
     (case struct_attribute gl flds stride attr of
        (calls, Some p) \<Rightarrow> (calls, Panicked p)
      | (calls, None) \<Rightarrow>
          (case struct_attributes gl flds stride attributes of
             (calls', out) \<Rightarrow> (calls @ calls', out)))"

text \<open>
  \<^verbatim>\<open>SetVertexAttributes[T](vertices, attributes)\<close>, with \<open>t\<close> the \<^verbatim>\<open>reflect.Type\<close> of
  \<^verbatim>\<open>T\<close>: the OpenGL calls issued, in order, and how the call ended. The stride is
  \<^verbatim>\<open>int32(unsafe.Sizeof(vertices[0]))\<close>, the size of \<^verbatim>\<open>T\<close>; no vertex is read. The
  \<^verbatim>\<open>switch\<close> on \<^verbatim>\<open>t.Kind()\<close> is the distinction of the constructors of \<open>t\<close>, which
  also gives \<^verbatim>\<open>t.Elem()\<close> and \<^verbatim>\<open>t.Len()\<close> of an array.
\<close>

definition SetVertexAttributes ::
  "gl_constants \<Rightarrow> reflect_Type \<Rightarrow> 'a list \<Rightarrow> VertexAttributesConfig list \<Rightarrow> gl_call list \<times> outcome" where
  "SetVertexAttributes gl t vertices attributes =
     (if length vertices = 0 then ([], Returned)
      else
        (let stride = int32 (Size t) in
         case t of
           BasicType name k sz \<Rightarrow> ([], Panicked UnsupportedRecordShape)
         | ArrayType name elem len \<Rightarrow>
             (case glType gl (Kind elem) of
                (attrType, False) \<Rightarrow> ([], Panicked UnsupportedPrimitiveType)
              | (attrType, True) \<Rightarrow>
                  (array_attributes (int32 len) attrType stride (Size elem) 0 attributes,
                   Returned))
         | StructType name flds sz \<Rightarrow> struct_attributes gl flds stride attributes))"

subsection \<open>Types of the examples\<close>

text \<open>
  Descriptors of some Go types, with the sizes and offsets of the Go compiler:
  \<^verbatim>\<open>rl.Vector2\<close> and \<^verbatim>\<open>rl.Vector3\<close>, the \<^verbatim>\<open>QuadVertex\<close> of the examples
  \<^verbatim>\<open>rlgl_vertex_buffer\<close> and \<^verbatim>\<open>rlgl_instanced_quads\<close>, and vertex types that
  exercise the other paths.
\<close>

definition float32 :: reflect_Type where
  "float32 = BasicType ''float32'' reflect_Float32 4"

definition uint8 :: reflect_Type where
  "uint8 = BasicType ''uint8'' reflect_Uint8 1"

definition int64 :: reflect_Type where
  "int64 = BasicType ''int64'' reflect_Int64 8"

text \<open>\<^verbatim>\<open>type MyFloat float32\<close>\<close>

definition MyFloat :: reflect_Type where
  "MyFloat = BasicType ''main.MyFloat'' reflect_Float32 4"

definition Vector2 :: reflect_Type where
  "Vector2 = StructType ''rl.Vector2''
     [StructField ''X'' float32 0, StructField ''Y'' float32 4] 8"

definition Vector3 :: reflect_Type where
  "Vector3 = StructType ''rl.Vector3''
     [StructField ''X'' float32 0, StructField ''Y'' float32 4, StructField ''Z'' float32 8] 12"

text \<open>\<^verbatim>\<open>type QuadVertex struct { Pos rl.Vector3; Tex rl.Vector2 }\<close>\<close>

definition QuadVertex :: reflect_Type where
  "QuadVertex = StructType ''main.QuadVertex''
     [StructField ''Pos'' Vector3 0, StructField ''Tex'' Vector2 12] 20"

text \<open>\<^verbatim>\<open>type IdVertex struct { Pos rl.Vector3; Id int64; Tex rl.Vector2 }\<close>\<close>

definition IdVertex :: reflect_Type where
  "IdVertex = StructType ''main.IdVertex''
     [StructField ''Pos'' Vector3 0, StructField ''Id'' int64 16, StructField ''Tex'' Vector2 24] 32"

text \<open>
  \<^verbatim>\<open>type OddVertex struct { Pos rl.Vector3; Mixed struct { X float32; Y uint8 };
    None struct{}; Scaled struct { X float32; Y MyFloat } }\<close>
\<close>

definition OddVertex :: reflect_Type where
  "OddVertex = StructType ''main.OddVertex''
     [StructField ''Pos'' Vector3 0,
      StructField ''Mixed''
        (StructType ''struct { X float32; Y uint8 }''
           [StructField ''X'' float32 0, StructField ''Y'' uint8 4] 8) 12,
      StructField ''None'' (StructType ''struct {}'' [] 0) 20,
      StructField ''Scaled''
        (StructType ''struct { X float32; Y main.MyFloat }''
           [StructField ''X'' float32 0, StructField ''Y'' MyFloat 4] 8) 20] 28"

text \<open>A binding of a field to an attribute index, not normalized.\<close>

definition bind :: "string \<Rightarrow> uint32 \<Rightarrow> VertexAttributesConfig" where
  "bind field index = \<lparr> Field_cfg = field, Attribute = index, Normalized = False \<rparr>"


section \<open>Properties\<close>

subsection \<open>Conversions to int32\<close>

lemma sint_int32: "x < 2 ^ 31 \<Longrightarrow> sint (int32 x) = int x"
proof -
  assume "x < 2 ^ 31"
  then have "int x < 2 ^ 31" by (metis of_nat_less_iff of_nat_numeral of_nat_power)
  then have "signed_take_bit 31 (int x) = int x"
    by (intro signed_take_bit_int_eq_self) simp_all
  then show ?thesis
    by (simp add: int32_def signed_of_nat)
qed

lemma int32_mult: "int32 i * int32 n = int32 (i * n)"
  by (simp add: int32_def)

lemma int32_eq_0: "0 < x \<Longrightarrow> x < 2 ^ 31 \<Longrightarrow> int32 x \<noteq> 0"
proof
  assume "0 < x" "x < 2 ^ 31" "int32 x = 0"
  then have "sint (int32 x) = 0" by simp
  with \<open>x < 2 ^ 31\<close> \<open>0 < x\<close> show False by (simp add: sint_int32)
qed

subsection \<open>The loops\<close>

lemma child_same_type_None:
  "child_same_type prevType flds i = None \<longleftrightarrow> (\<forall>j. i \<le> j \<and> j < length flds \<longrightarrow> Type (flds ! j) = prevType)"
proof (induction prevType flds i rule: child_same_type.induct)
  case (1 prevType flds i)
  show ?case
  proof (cases "i < length flds")
    case False
    then show ?thesis by (auto simp add: child_same_type.simps [of prevType flds i])
  next
    case True
    show ?thesis
    proof (cases "prevType = Type (flds ! i)")
      case False
      with True show ?thesis
        by (auto simp add: child_same_type.simps [of prevType flds i])
    next
      case same: True
      have "(\<forall>j. i \<le> j \<and> j < length flds \<longrightarrow> Type (flds ! j) = prevType)
        \<longleftrightarrow> (\<forall>j. Suc i \<le> j \<and> j < length flds \<longrightarrow> Type (flds ! j) = prevType)"
        using same by (metis Suc_leI le_eq_less_or_eq Suc_leD)
      moreover have "child_same_type prevType flds i = child_same_type prevType flds (Suc i)"
        using True same by (subst child_same_type.simps) simp
      ultimately show ?thesis
        using 1 True same by simp
    qed
  qed
qed

lemma child_same_type_Some:
  "child_same_type prevType flds i = Some p \<Longrightarrow> p = HeterogeneousAggregate NotSameType"
  by (induction prevType flds i rule: child_same_type.induct)
     (subst (asm) child_same_type.simps, auto split: if_splits)


lemma struct_attributes_append:
  "struct_attributes gl flds stride (pre @ post) =
     (case struct_attributes gl flds stride pre of
        (calls, Returned) \<Rightarrow>
          (case struct_attributes gl flds stride post of (calls', out) \<Rightarrow> (calls @ calls', out))
      | (calls, Panicked p) \<Rightarrow> (calls, Panicked p))"
  by (induction pre) (auto split: prod.splits option.splits outcome.splits)


lemma array_attributes_eq:
  "array_attributes components attrType stride attributeSize i attributes =
     concat (map (\<lambda>(j, attr).
         [SetVertexAttribute (Attribute attr) components attrType (Normalized attr) stride
            (int32 j * int32 attributeSize),
          EnableVertexAttribute (Attribute attr)])
       (enumerate i attributes))"
  by (induction attributes arbitrary: i) simp_all

subsection \<open>One binding of a slice of structs\<close>

lemma SetVertexAttributes_struct:
  "vertices \<noteq> [] \<Longrightarrow>
   SetVertexAttributes gl (StructType name flds sz) vertices attributes =
     struct_attributes gl flds (int32 sz) attributes"
  by (simp add: SetVertexAttributes_def)

lemma struct_attributes_panic_at:
  assumes "struct_attributes gl flds stride pre = (calls, Returned)"
    and "struct_attribute gl flds stride attr = ([], Some p)"
  shows "struct_attributes gl flds stride (pre @ attr # post) = (calls, Panicked p)"
  using assms by (simp add: struct_attributes_append)


lemma struct_attribute_child:
  assumes field: "FieldByName flds (Field_cfg attr) = Some field"
    and child: "Type field = StructType cname cflds csz"
  shows "struct_attribute gl flds stride attr =
     (let components = int32 (length cflds) in
      if components = 0 then ([], Some EmptyAggregate)
      else
        (let prevType = Type (cflds ! 0) in
         case glType gl (Kind prevType) of
           (attrType, False) \<Rightarrow> ([], Some (HeterogeneousAggregate NotPrimitive))
         | (attrType, True) \<Rightarrow>
             (case child_same_type prevType cflds 1 of
                Some p \<Rightarrow> ([], Some p)
              | None \<Rightarrow>
                  ([SetVertexAttribute (Attribute attr) components attrType
                      (Normalized attr) stride (int32 (Offset field)),
                    EnableVertexAttribute (Attribute attr)], None))))"
  by (simp add: struct_attribute_def field child)


lemma child_same_type_differs:
  assumes "0 < i" "i < length cflds" "Type (cflds ! i) \<noteq> prevType"
  shows "child_same_type prevType cflds 1 = Some (HeterogeneousAggregate NotSameType)"
proof -
  have "1 \<le> i \<and> i < length cflds \<and> Type (cflds ! i) \<noteq> prevType"
    using assms by simp
  then have "child_same_type prevType cflds 1 \<noteq> None"
    unfolding child_same_type_None by blast
  then show ?thesis
    using child_same_type_Some by blast
qed


lemma struct_attribute_child_empty:
  assumes field: "FieldByName flds (Field_cfg attr) = Some field"
    and child: "Type field = StructType cname [] csz"
  shows "struct_attribute gl flds stride attr = ([], Some EmptyAggregate)"
  by (simp add: struct_attribute_child [OF field child] int32_def)

lemma struct_attribute_child_not_primitive:
  assumes field: "FieldByName flds (Field_cfg attr) = Some field"
    and child: "Type field = StructType cname cflds csz"
    and nonempty: "cflds \<noteq> []" and bound: "length cflds < 2 ^ 31"
    and prim: "\<not> snd (glType gl (Kind (Type (cflds ! 0))))"
  shows "struct_attribute gl flds stride attr = ([], Some (HeterogeneousAggregate NotPrimitive))"
proof -
  have "int32 (length cflds) \<noteq> 0"
    using nonempty bound by (intro int32_eq_0) simp_all
  moreover obtain c where "glType gl (Kind (Type (cflds ! 0))) = (c, False)"
    using prim by (cases "glType gl (Kind (Type (cflds ! 0)))") simp
  ultimately show ?thesis
    by (simp add: struct_attribute_child [OF field child])
qed

lemma struct_attribute_child_not_same:
  assumes field: "FieldByName flds (Field_cfg attr) = Some field"
    and child: "Type field = StructType cname cflds csz"
    and bound: "length cflds < 2 ^ 31"
    and prim: "snd (glType gl (Kind (Type (cflds ! 0))))"
    and i: "0 < i" "i < length cflds" and differs: "Type (cflds ! i) \<noteq> Type (cflds ! 0)"
  shows "struct_attribute gl flds stride attr = ([], Some (HeterogeneousAggregate NotSameType))"
proof -
  have "0 < length cflds" using i by linarith
  then have "int32 (length cflds) \<noteq> 0"
    using bound by (rule int32_eq_0)
  moreover obtain c where "glType gl (Kind (Type (cflds ! 0))) = (c, True)"
    using prim by (cases "glType gl (Kind (Type (cflds ! 0)))") simp
  moreover have "child_same_type (Type (cflds ! 0)) cflds 1 = Some (HeterogeneousAggregate NotSameType)"
    using i differs by (rule child_same_type_differs)
  ultimately show ?thesis
    by (simp add: struct_attribute_child [OF field child])
qed

subsection \<open>An empty slice of vertices\<close>

text \<open>
  C5. Whatever the type of the vertices and whatever the bindings, a call with an empty
  slice of vertices issues no OpenGL call and returns without a panic, also where a
  non-empty slice of the same type would panic.
\<close>

theorem empty_vertices_no_op:
  "SetVertexAttributes gl t [] attributes = ([], Returned)"
  by (simp add: SetVertexAttributes_def)

subsection \<open>The mapping from kinds to OpenGL types\<close>

lemma glType_supported_set:
  "{k. snd (glType gl k)} =
     {reflect_Int8, reflect_Uint8, reflect_Int16, reflect_Uint16, reflect_Int32,
      reflect_Uint32, reflect_Float32, reflect_Float64}"
proof -
  have "snd (glType gl k) \<longleftrightarrow> k \<in> {reflect_Int8, reflect_Uint8, reflect_Int16, reflect_Uint16,
      reflect_Int32, reflect_Uint32, reflect_Float32, reflect_Float64}" for k
    by (cases k) simp_all
  then show ?thesis by blast
qed

text \<open>
  C4, as amended. \<open>glType\<close> returns the constant of the table for each of the eight
  kinds int8, uint8, int16, uint16, int32, uint32, float32 and float64, and \<open>(-1, false)\<close>
  for every other kind, among them int, uint, int64, uint64 and bool. The kinds it
  accepts are eight.
\<close>

theorem glType_table:
  "glType gl reflect_Int8 = (rl_Byte gl, True) \<and>
   glType gl reflect_Uint8 = (rl_UnsignedByte gl, True) \<and>
   glType gl reflect_Int16 = (rl_Short gl, True) \<and>
   glType gl reflect_Uint16 = (rl_UnsignedShort gl, True) \<and>
   glType gl reflect_Int32 = (rl_Int gl, True) \<and>
   glType gl reflect_Uint32 = (rl_UnsignedInt gl, True) \<and>
   glType gl reflect_Float32 = (rl_Float gl, True) \<and>
   glType gl reflect_Float64 = (rl_Double gl, True) \<and>
   (k \<notin> {reflect_Int8, reflect_Uint8, reflect_Int16, reflect_Uint16, reflect_Int32,
          reflect_Uint32, reflect_Float32, reflect_Float64}
      \<longrightarrow> glType gl k = (- 1, False)) \<and>
   glType gl reflect_Int = (- 1, False) \<and>
   glType gl reflect_Uint = (- 1, False) \<and>
   glType gl reflect_Int64 = (- 1, False) \<and>
   glType gl reflect_Uint64 = (- 1, False) \<and>
   glType gl reflect_Bool = (- 1, False) \<and>
   card {k. snd (glType gl k)} = 8"
proof -
  have other: "k \<notin> {reflect_Int8, reflect_Uint8, reflect_Int16, reflect_Uint16, reflect_Int32,
          reflect_Uint32, reflect_Float32, reflect_Float64}
      \<longrightarrow> glType gl k = (- 1, False)"
    by (cases k) simp_all
  have "card {k. snd (glType gl k)} = 8"
    by (simp add: glType_supported_set)
  with other show ?thesis by simp
qed

text \<open>An instance: the kind string is rejected, float64 is mapped to \<^verbatim>\<open>Double\<close>.\<close>

theorem glType_table_witness:
  "reflect_String \<notin> {reflect_Int8, reflect_Uint8, reflect_Int16, reflect_Uint16, reflect_Int32,
          reflect_Uint32, reflect_Float32, reflect_Float64} \<and>
   glType opengl reflect_String = (- 1, False) \<and>
   glType opengl reflect_Float64 = (0x140A, True)"
  using glType_table [of opengl reflect_String] by (simp add: opengl_def)

text \<open>
  C4 as it is stated speaks of seven supported kinds. Eight pairwise distinct kinds are
  accepted.
\<close>

theorem glType_accepts_eight_kinds:
  "distinct [reflect_Int8, reflect_Uint8, reflect_Int16, reflect_Uint16, reflect_Int32,
      reflect_Uint32, reflect_Float32, reflect_Float64] \<and>
   length [reflect_Int8, reflect_Uint8, reflect_Int16, reflect_Uint16, reflect_Int32,
      reflect_Uint32, reflect_Float32, reflect_Float64] = 8 \<and>
   snd (glType opengl reflect_Int8) \<and> snd (glType opengl reflect_Uint8) \<and>
   snd (glType opengl reflect_Int16) \<and> snd (glType opengl reflect_Uint16) \<and>
   snd (glType opengl reflect_Int32) \<and> snd (glType opengl reflect_Uint32) \<and>
   snd (glType opengl reflect_Float32) \<and> snd (glType opengl reflect_Float64)"
  by simp

subsection \<open>Fields that are child structs\<close>




text \<open>
  C8. The vertices are structs, the bindings \<open>pre\<close> have been processed without a
  panic, and the next binding names a field whose type is a struct. When that struct
  has no field the call panics with "Child struct ... is empty"; when it has fields
  that do not all have one and the same type known to \<open>glType\<close>, the call panics
  with one of the two messages about the fields of a child struct: the one about a
  primitive type when the first field's kind is not known to \<open>glType\<close>, the one about
  the same type, found by comparing every later field's type with the first one's,
  otherwise. In both cases the calls issued are those of \<open>pre\<close>, whatever bindings
  \<open>post\<close> follow.
\<close>

theorem nested_aggregate_rejected:
  assumes "vertices \<noteq> []" and "t = StructType name flds sz"
    and "SetVertexAttributes gl t vertices pre = (calls, Returned)"
    and "FieldByName flds (Field_cfg attr) = Some field"
    and "Type field = StructType cname cflds csz"
  shows "(cflds = [] \<longrightarrow>
       SetVertexAttributes gl t vertices (pre @ attr # post) = (calls, Panicked EmptyAggregate)) \<and>
    (cflds \<noteq> [] \<and> length cflds < 2 ^ 31 \<and>
     \<not> (\<exists>T. snd (glType gl (Kind T)) \<and> (\<forall>f\<in>set cflds. Type f = T)) \<longrightarrow>
       SetVertexAttributes gl t vertices (pre @ attr # post) =
         (calls, Panicked (HeterogeneousAggregate
            (if snd (glType gl (Kind (Type (cflds ! 0)))) then NotSameType else NotPrimitive))))"
proof -
  have run: "SetVertexAttributes gl t vertices (pre @ attr # post) = (calls, Panicked p)"
    if "struct_attribute gl flds (int32 sz) attr = ([], Some p)" for p
  proof -
    have "struct_attributes gl flds (int32 sz) pre = (calls, Returned)"
      using assms(1,2,3) by (simp add: SetVertexAttributes_struct)
    then have "struct_attributes gl flds (int32 sz) (pre @ attr # post) = (calls, Panicked p)"
      using that by (rule struct_attributes_panic_at)
    then show ?thesis
      using assms(1,2) by (simp add: SetVertexAttributes_struct)
  qed
  have empty: "SetVertexAttributes gl t vertices (pre @ attr # post) = (calls, Panicked EmptyAggregate)"
    if "cflds = []"
  proof (rule run)
    show "struct_attribute gl flds (int32 sz) attr = ([], Some EmptyAggregate)"
      using assms(4) assms(5) [unfolded that] by (rule struct_attribute_child_empty)
  qed
  have hetero: "SetVertexAttributes gl t vertices (pre @ attr # post) =
         (calls, Panicked (HeterogeneousAggregate
            (if snd (glType gl (Kind (Type (cflds ! 0)))) then NotSameType else NotPrimitive)))"
    if nonempty: "cflds \<noteq> []" and bound: "length cflds < 2 ^ 31"
      and no: "\<not> (\<exists>T. snd (glType gl (Kind T)) \<and> (\<forall>f\<in>set cflds. Type f = T))"
  proof (cases "snd (glType gl (Kind (Type (cflds ! 0))))")
    case False
    have "struct_attribute gl flds (int32 sz) attr = ([], Some (HeterogeneousAggregate NotPrimitive))"
      using assms(4,5) nonempty bound False by (rule struct_attribute_child_not_primitive)
    then show ?thesis using False by (simp add: run)
  next
    case True
    with no have "\<not> (\<forall>f\<in>set cflds. Type f = Type (cflds ! 0))" by blast
    then obtain i where i: "i < length cflds" and differs: "Type (cflds ! i) \<noteq> Type (cflds ! 0)"
      by (auto simp add: all_set_conv_all_nth)
    from differs have "0 < i" by (cases i) simp_all
    have "struct_attribute gl flds (int32 sz) attr = ([], Some (HeterogeneousAggregate NotSameType))"
      using assms(4,5) bound True \<open>0 < i\<close> i differs by (rule struct_attribute_child_not_same)
    then show ?thesis using True by (simp add: run)
  qed
  from empty hetero show ?thesis by blast
qed

text \<open>An empty child struct, and one with the fields \<^verbatim>\<open>X float32\<close> and \<^verbatim>\<open>Y uint8\<close>.\<close>

theorem nested_aggregate_rejected_witness:
  "SetVertexAttributes opengl OddVertex [()] [bind ''Pos'' 0, bind ''None'' 1, bind ''Pos'' 2] =
     ([SetVertexAttribute 0 3 0x1406 False 28 0, EnableVertexAttribute 0],
      Panicked EmptyAggregate) \<and>
   SetVertexAttributes opengl OddVertex [()] [bind ''Pos'' 0, bind ''Mixed'' 1, bind ''Pos'' 2] =
     ([SetVertexAttribute 0 3 0x1406 False 28 0, EnableVertexAttribute 0],
      Panicked (HeterogeneousAggregate NotSameType))"
proof -
  have vertices: "[()] \<noteq> []" by simp
  have pre: "SetVertexAttributes opengl OddVertex [()] [bind ''Pos'' 0] =
     ([SetVertexAttribute 0 3 0x1406 False 28 0, EnableVertexAttribute 0], Returned)"
    by code_simp
  have none: "FieldByName (case OddVertex of StructType n fs s \<Rightarrow> fs) (Field_cfg (bind ''None'' 1)) =
      Some (StructField ''None'' (StructType ''struct {}'' [] 0) 20)"
    by (simp add: FieldByName_def bind_def OddVertex_def)
  have mixed: "FieldByName (case OddVertex of StructType n fs s \<Rightarrow> fs) (Field_cfg (bind ''Mixed'' 1)) =
      Some (StructField ''Mixed'' (StructType ''struct { X float32; Y uint8 }''
           [StructField ''X'' float32 0, StructField ''Y'' uint8 4] 8) 12)"
    by (simp add: FieldByName_def bind_def OddVertex_def)
  have t: "OddVertex = StructType ''main.OddVertex'' (case OddVertex of StructType n fs s \<Rightarrow> fs) 28"
    by (simp add: OddVertex_def)
  have no: "\<not> (\<exists>T. snd (glType opengl (Kind T)) \<and>
      (\<forall>f\<in>set [StructField ''X'' float32 0, StructField ''Y'' uint8 4]. Type f = T))"
    by (auto simp add: float32_def uint8_def)
  have first: "snd (glType opengl (Kind (Type ([StructField ''X'' float32 0, StructField ''Y'' uint8 4] ! 0))))"
    by (simp add: float32_def)
  have "SetVertexAttributes opengl OddVertex [()] ([bind ''Pos'' 0] @ bind ''None'' 1 # [bind ''Pos'' 2]) =
     ([SetVertexAttribute 0 3 0x1406 False 28 0, EnableVertexAttribute 0], Panicked EmptyAggregate)"
    using nested_aggregate_rejected [OF vertices t pre none, where cname = "''struct {}''"
        and cflds = "[]" and csz = 0 and post = "[bind ''Pos'' 2]"]
    by simp
  moreover have "SetVertexAttributes opengl OddVertex [()] ([bind ''Pos'' 0] @ bind ''Mixed'' 1 # [bind ''Pos'' 2]) =
     ([SetVertexAttribute 0 3 0x1406 False 28 0, EnableVertexAttribute 0],
      Panicked (HeterogeneousAggregate NotSameType))"
    using nested_aggregate_rejected [OF vertices t pre mixed,
        where cname = "''struct { X float32; Y uint8 }''"
        and cflds = "[StructField ''X'' float32 0, StructField ''Y'' uint8 4]" and csz = 8
        and post = "[bind ''Pos'' 2]"] no first
    by simp
  ultimately show ?thesis by simp
qed

text \<open>
  C9. The loop over the fields of a child struct compares types, not kinds: when the
  first field's kind is known to \<open>glType\<close> and the type of some later field is another
  type, of whatever kind, the call panics with the message about the same type.
\<close>

theorem same_type_check_is_type_identity:
  assumes "vertices \<noteq> []" and "t = StructType name flds sz"
    and "SetVertexAttributes gl t vertices pre = (calls, Returned)"
    and "FieldByName flds (Field_cfg attr) = Some field"
    and "Type field = StructType cname cflds csz"
    and "length cflds < 2 ^ 31"
    and "snd (glType gl (Kind (Type (cflds ! 0))))"
    and "0 < i" and "i < length cflds"
    and "Type (cflds ! i) \<noteq> Type (cflds ! 0)"
  shows "SetVertexAttributes gl t vertices (pre @ attr # post) =
     (calls, Panicked (HeterogeneousAggregate NotSameType))"
proof -
  have "struct_attribute gl flds (int32 sz) attr = ([], Some (HeterogeneousAggregate NotSameType))"
    using assms(4-10) by (rule struct_attribute_child_not_same)
  moreover have "struct_attributes gl flds (int32 sz) pre = (calls, Returned)"
    using assms(1,2,3) by (simp add: SetVertexAttributes_struct)
  ultimately have "struct_attributes gl flds (int32 sz) (pre @ attr # post) =
      (calls, Panicked (HeterogeneousAggregate NotSameType))"
    by (simp add: struct_attributes_panic_at)
  then show ?thesis
    using assms(1,2) by (simp add: SetVertexAttributes_struct)
qed

text \<open>
  \<^verbatim>\<open>float32\<close> and \<^verbatim>\<open>MyFloat\<close> have the same kind and size and are different types.
\<close>

theorem same_type_check_is_type_identity_witness:
  "Kind MyFloat = Kind float32 \<and> Size MyFloat = Size float32 \<and> MyFloat \<noteq> float32 \<and>
   SetVertexAttributes opengl OddVertex [()] [bind ''Pos'' 0, bind ''Scaled'' 1, bind ''Pos'' 2] =
     ([SetVertexAttribute 0 3 0x1406 False 28 0, EnableVertexAttribute 0],
      Panicked (HeterogeneousAggregate NotSameType))"
proof -
  have vertices: "[()] \<noteq> []" by simp
  have pre: "SetVertexAttributes opengl OddVertex [()] [bind ''Pos'' 0] =
     ([SetVertexAttribute 0 3 0x1406 False 28 0, EnableVertexAttribute 0], Returned)"
    by code_simp
  have t: "OddVertex = StructType ''main.OddVertex'' (case OddVertex of StructType n fs s \<Rightarrow> fs) 28"
    by (simp add: OddVertex_def)
  have field: "FieldByName (case OddVertex of StructType n fs s \<Rightarrow> fs) (Field_cfg (bind ''Scaled'' 1)) =
      Some (StructField ''Scaled'' (StructType ''struct { X float32; Y main.MyFloat }''
           [StructField ''X'' float32 0, StructField ''Y'' MyFloat 4] 8) 20)"
    by (simp add: FieldByName_def bind_def OddVertex_def)
  have child: "Type (StructField ''Scaled'' (StructType ''struct { X float32; Y main.MyFloat }''
           [StructField ''X'' float32 0, StructField ''Y'' MyFloat 4] 8) 20) =
      StructType ''struct { X float32; Y main.MyFloat }''
           [StructField ''X'' float32 0, StructField ''Y'' MyFloat 4] 8"
    by simp
  have bound: "length [StructField ''X'' float32 0, StructField ''Y'' MyFloat 4] < 2 ^ 31"
    by simp
  have prim: "snd (glType opengl (Kind (Type ([StructField ''X'' float32 0, StructField ''Y'' MyFloat 4] ! 0))))"
    by (simp add: float32_def)
  have pos: "0 < (1::nat)" by simp
  have i: "1 < length [StructField ''X'' float32 0, StructField ''Y'' MyFloat 4]" by simp
  have differs: "Type ([StructField ''X'' float32 0, StructField ''Y'' MyFloat 4] ! 1) \<noteq>
      Type ([StructField ''X'' float32 0, StructField ''Y'' MyFloat 4] ! 0)"
    by (simp add: float32_def MyFloat_def)
  have "SetVertexAttributes opengl OddVertex [()] ([bind ''Pos'' 0] @ bind ''Scaled'' 1 # [bind ''Pos'' 2]) =
     ([SetVertexAttribute 0 3 0x1406 False 28 0, EnableVertexAttribute 0],
      Panicked (HeterogeneousAggregate NotSameType))"
    using vertices t pre field child bound prim pos i differs
    by (rule same_type_check_is_type_identity)
  then show ?thesis
    by (simp add: float32_def MyFloat_def)
qed

subsection \<open>Fields of other types\<close>

text \<open>
  A field that is found, whose kind \<open>glType\<close> does not know and whose type is neither
  an array nor a struct: the binding issues no call and the loop goes on.
\<close>

lemma struct_attribute_unsupported:
  assumes "FieldByName flds (Field_cfg attr) = Some field"
    and "Type field = BasicType name k sz"
    and "\<not> snd (glType gl k)"
  shows "struct_attribute gl flds stride attr = ([], None)"
  using assms by (cases "glType gl k") (simp add: struct_attribute_def)

text \<open>
  C1 does not hold of the code: the claim asks for a panic on such a field. Here the
  binding of the \<^verbatim>\<open>int64\<close> field \<^verbatim>\<open>Id\<close> is passed over in silence, and the bindings
  before and after it are set up.
\<close>

theorem unsupported_field_is_skipped:
  "SetVertexAttributes opengl IdVertex [()] [bind ''Pos'' 0, bind ''Id'' 1, bind ''Tex'' 2] =
     ([SetVertexAttribute 0 3 0x1406 False 32 0, EnableVertexAttribute 0,
       SetVertexAttribute 2 2 0x1406 False 32 24, EnableVertexAttribute 2], Returned)"
  by code_simp


subsection \<open>Slices of arrays\<close>

lemma length_array_attributes:
  "length (array_attributes components attrType stride attributeSize i attributes) =
     2 * length attributes"
  by (induction attributes arbitrary: i) simp_all

text \<open>
  C2. The vertices are arrays whose element kind \<open>glType\<close> maps to \<open>code\<close>. Then the
  call returns after one pair of \<^verbatim>\<open>SetVertexAttribute\<close> and \<^verbatim>\<open>EnableVertexAttribute\<close>
  for each binding, in the order of the bindings, twice as many calls as bindings. In
  every pair the component count is the length of the array, the type is \<open>code\<close>, the
  stride is the size of the array, and the offset of the binding at index \<open>i\<close> is
  \<open>i\<close> times the size of an element: the product of the two int32 conversions, which
  is the number \<open>i * Size elem\<close> itself below \<open>2^31\<close>, as the component count is the
  length itself below \<open>2^31\<close>. The field names of the bindings play no role.
\<close>

theorem array_backed_bindings:
  assumes "vertices \<noteq> []" and "t = ArrayType name elem len"
    and "glType gl (Kind elem) = (code, True)"
  shows "SetVertexAttributes gl t vertices attributes =
      (concat (map (\<lambda>(i, attr).
           [SetVertexAttribute (Attribute attr) (int32 len) code (Normalized attr)
              (int32 (Size t)) (int32 i * int32 (Size elem)),
            EnableVertexAttribute (Attribute attr)])
         (enumerate 0 attributes)), Returned) \<and>
    length (fst (SetVertexAttributes gl t vertices attributes)) = 2 * length attributes \<and>
    (len < 2 ^ 31 \<longrightarrow> sint (int32 len) = int len) \<and>
    (\<forall>i < length attributes. i * Size elem < 2 ^ 31 \<longrightarrow>
       sint (int32 i * int32 (Size elem)) = int i * int (Size elem))"
proof -
  have run: "SetVertexAttributes gl t vertices attributes =
      (array_attributes (int32 len) code (int32 (Size t)) (Size elem) 0 attributes, Returned)"
    using assms by (simp add: SetVertexAttributes_def)
  have "SetVertexAttributes gl t vertices attributes =
      (concat (map (\<lambda>(i, attr).
           [SetVertexAttribute (Attribute attr) (int32 len) code (Normalized attr)
              (int32 (Size t)) (int32 i * int32 (Size elem)),
            EnableVertexAttribute (Attribute attr)])
         (enumerate 0 attributes)), Returned)"
    unfolding run by (simp only: array_attributes_eq)
  moreover have "length (fst (SetVertexAttributes gl t vertices attributes)) = 2 * length attributes"
    unfolding run by (simp add: length_array_attributes)
  moreover have "sint (int32 i * int32 (Size elem)) = int i * int (Size elem)"
    if "i * Size elem < 2 ^ 31" for i
    using that by (simp add: int32_mult sint_int32)
  ultimately show ?thesis
    by (simp add: sint_int32)
qed

text \<open>Vertices of type \<^verbatim>\<open>[2]float32\<close> and two bindings: the offsets are 0 and 4.\<close>

theorem array_backed_bindings_witness:
  "SetVertexAttributes opengl (ArrayType ''[2]float32'' float32 2) [()]
      [bind ''a'' 0, bind ''b'' 1] =
     ([SetVertexAttribute 0 2 0x1406 False 8 0, EnableVertexAttribute 0,
       SetVertexAttribute 1 2 0x1406 False 8 4, EnableVertexAttribute 1], Returned) \<and>
   sint (int32 1 * int32 (Size float32)) = 4"
proof -
  have vertices: "[()] \<noteq> []" by simp
  have prim: "glType opengl (Kind float32) = (0x1406, True)"
    by (simp add: float32_def opengl_def)
  have small: "(1::nat) < length [bind ''a'' 0, bind ''b'' 1] \<and> 1 * Size float32 < 2 ^ 31"
    by (simp add: float32_def)
  show ?thesis
    using array_backed_bindings [OF vertices refl prim, of "''[2]float32''" 2
        "[bind ''a'' 0, bind ''b'' 1]"] small
    by (simp add: bind_def int32_def float32_def enumerate_eq_zip upt_rec)
qed


subsection \<open>The stride\<close>

lemma array_attributes_stride:
  "SetVertexAttribute index c ty n s off
     \<in> set (array_attributes components attrType stride attributeSize i attributes)
   \<Longrightarrow> s = stride"
  by (induction attributes arbitrary: i) auto

lemma struct_attribute_stride:
  "struct_attribute gl flds stride attr = (calls, r) \<Longrightarrow>
   SetVertexAttribute index c ty n s off \<in> set calls \<Longrightarrow> s = stride"
  by (auto simp add: struct_attribute_def Let_def
      split: option.splits prod.splits bool.splits reflect_Type.splits if_splits)

lemma struct_attributes_stride:
  "struct_attributes gl flds stride attributes = (calls, out) \<Longrightarrow>
   SetVertexAttribute index c ty n s off \<in> set calls \<Longrightarrow> s = stride"
proof (induction attributes arbitrary: calls out)
  case Nil
  then show ?case by simp
next
  case (Cons a attributes)
  obtain cs r where a: "struct_attribute gl flds stride a = (cs, r)"
    by (cases "struct_attribute gl flds stride a")
  obtain cs' out' where rest: "struct_attributes gl flds stride attributes = (cs', out')"
    by (cases "struct_attributes gl flds stride attributes")
  from Cons.prems(1) a rest have "set calls \<subseteq> set cs \<union> set cs'"
    by (cases r) auto
  with Cons.prems(2) have "SetVertexAttribute index c ty n s off \<in> set cs
      \<or> SetVertexAttribute index c ty n s off \<in> set cs'"
    by blast
  then show ?case
    using struct_attribute_stride [OF a] Cons.IH [OF rest] by blast
qed

text \<open>
  C6. Every call of \<^verbatim>\<open>SetVertexAttribute\<close> that a call of \<^verbatim>\<open>SetVertexAttributes\<close>
  issues, on either path and whatever its outcome, carries one and the same stride:
  the size of one vertex, converted to int32 (the size itself below \<open>2^31\<close>).
\<close>

theorem stride_invariant:
  "SetVertexAttribute index components attrType normalized stride offset
      \<in> set (fst (SetVertexAttributes gl t vertices attributes)) \<longrightarrow>
   stride = int32 (Size t) \<and> (Size t < 2 ^ 31 \<longrightarrow> sint stride = int (Size t))"
proof
  assume call: "SetVertexAttribute index components attrType normalized stride offset
      \<in> set (fst (SetVertexAttributes gl t vertices attributes))"
  then have vertices: "vertices \<noteq> []"
    by (auto simp add: SetVertexAttributes_def)
  have "stride = int32 (Size t)"
  proof (cases t)
    case (BasicType name k sz)
    with call vertices show ?thesis by (simp add: SetVertexAttributes_def)
  next
    case (ArrayType name elem len)
    obtain code ok where prim: "glType gl (Kind elem) = (code, ok)"
      by (cases "glType gl (Kind elem)")
    show ?thesis
    proof (cases ok)
      case False
      with call vertices ArrayType prim show ?thesis by (simp add: SetVertexAttributes_def)
    next
      case True
      with call vertices ArrayType prim
      have "SetVertexAttribute index components attrType normalized stride offset
        \<in> set (array_attributes (int32 len) code (int32 (Size t)) (Size elem) 0 attributes)"
        by (simp add: SetVertexAttributes_def)
      then show ?thesis by (rule array_attributes_stride)
    qed
  next
    case (StructType name flds sz)
    obtain calls out where run: "struct_attributes gl flds (int32 sz) attributes = (calls, out)"
      by (cases "struct_attributes gl flds (int32 sz) attributes")
    with call vertices StructType
    have "SetVertexAttribute index components attrType normalized stride offset \<in> set calls"
      by (simp add: SetVertexAttributes_struct)
    with run have "stride = int32 sz" by (rule struct_attributes_stride)
    with StructType show ?thesis by simp
  qed
  then show "stride = int32 (Size t) \<and> (Size t < 2 ^ 31 \<longrightarrow> sint stride = int (Size t))"
    by (simp add: sint_int32)
qed

text \<open>The second descriptor of a \<^verbatim>\<open>QuadVertex\<close>: its stride is 20.\<close>

theorem stride_invariant_witness:
  "SetVertexAttribute 1 2 0x1406 False 20 12
      \<in> set (fst (SetVertexAttributes opengl QuadVertex [()] [bind ''Pos'' 0, bind ''Tex'' 1])) \<and>
   (20 :: int32) = int32 (Size QuadVertex) \<and> Size QuadVertex < 2 ^ 31 \<and>
   sint (20 :: int32) = int (Size QuadVertex)"
proof -
  have run: "SetVertexAttributes opengl QuadVertex [()] [bind ''Pos'' 0, bind ''Tex'' 1] =
     ([SetVertexAttribute 0 3 0x1406 False 20 0, EnableVertexAttribute 0,
       SetVertexAttribute 1 2 0x1406 False 20 12, EnableVertexAttribute 1], Returned)"
    by code_simp
  have call: "SetVertexAttribute 1 2 0x1406 False 20 12
      \<in> set (fst (SetVertexAttributes opengl QuadVertex [()] [bind ''Pos'' 0, bind ''Tex'' 1]))"
    by (simp add: run)
  have size: "Size QuadVertex < 2 ^ 31" by (simp add: QuadVertex_def)
  show ?thesis
    using stride_invariant [of 1 2 "0x1406" False 20 12 opengl QuadVertex "[()]"
        "[bind ''Pos'' 0, bind ''Tex'' 1]"] call size
    by (simp add: int32_def)
qed

subsection \<open>Panics\<close>



subsection \<open>The contents of the vertices\<close>

text \<open>
  C10. The calls issued and the outcome depend on the vertices only through their
  type and through whether there is any: two non-empty slices of vertices, of any
  lengths and contents, give the same calls and the same outcome for the same type
  and bindings.
\<close>

theorem vertices_only_tested_for_emptiness:
  "vertices \<noteq> [] \<Longrightarrow> vertices' \<noteq> [] \<Longrightarrow>
   SetVertexAttributes gl t vertices attributes = SetVertexAttributes gl t vertices' attributes"
  by (simp add: SetVertexAttributes_def)


text \<open>One vertex and three other vertices, with a binding that panics.\<close>

theorem vertices_only_tested_for_emptiness_witness:
  "SetVertexAttributes opengl QuadVertex [[1 :: int, 2, 3, 0, 0]] [bind ''Pos'' 0, bind ''Nope'' 1] =
   SetVertexAttributes opengl QuadVertex [[4, 5, 6, 7, 8], [9, 10, 11, 12, 13], [0, 0, 0, 0, 0 :: int]]
     [bind ''Pos'' 0, bind ''Nope'' 1] \<and>
   SetVertexAttributes opengl QuadVertex [[1 :: int, 2, 3, 0, 0]] [bind ''Pos'' 0, bind ''Nope'' 1] =
     ([SetVertexAttribute 0 3 0x1406 False 20 0, EnableVertexAttribute 0], Panicked UnknownField)"
proof -
  have a: "[[1 :: int, 2, 3, 0, 0]] \<noteq> []" by simp
  have b: "[[4, 5, 6, 7, 8], [9, 10, 11, 12, 13], [0, 0, 0, 0, 0 :: int]] \<noteq> []" by simp
  have "SetVertexAttributes opengl QuadVertex [[1 :: int, 2, 3, 0, 0]] [bind ''Pos'' 0, bind ''Nope'' 1] =
     ([SetVertexAttribute 0 3 0x1406 False 20 0, EnableVertexAttribute 0], Panicked UnknownField)"
    by code_simp
  then show ?thesis
    using vertices_only_tested_for_emptiness [OF a b, of opengl QuadVertex "[bind ''Pos'' 0, bind ''Nope'' 1]"]
    by simp
qed


end
